theory Spec2Isabelle
  imports Main "HOL-Library.Word"
begin

section \<open>LSAT authenticator: token codec, accept and challenge\<close>

text \<open>
  A shallow embedding of \<^verbatim>\<open>auth/authenticator.go\<close>. Go strings are byte sequences and
  are modelled as \<^typ>\<open>string\<close> (a list of 8-bit characters); byte slices are lists of
  8-bit words. A Go result pair \<^verbatim>\<open>(value, error)\<close> is a sum with the error on the left.
  Pointers and maps handed to the functions are taken to be allocated: the proxy passes
  the header map of a parsed request.
\<close>

type_synonym byte = "8 word"

subsection \<open>Errors\<close>

text \<open>
  One constructor per error the code or its libraries create. An error built with
  \<^verbatim>\<open>fmt.Errorf("...: %v", err)\<close> keeps the error it wraps as its argument. Errors of the
  collaborators outside this package (the minter, the macaroon library, caveat extraction)
  are \<open>External\<close> with their message.
\<close>

datatype error =
    External string
  | CorruptInputError
  | InvalidByteError char
  | ErrLength
  | InvalidPreimageStringLength nat
  | InvalidPreimageLength nat
  | InvalidAuthHeaderFormat string
  | Base64DecodeFailed error
  | UnmarshalMacaroonFailed error
  | PreimageHexDecodeFailed error
  | NoAuthHeaderProvided
  | MacaroonHexDecodeFailed error
  | ExtractPreimageFailed error

subsection \<open>HTTP headers (net/http, net/textproto)\<close>

text \<open>
  \<^verbatim>\<open>http.Header\<close> is \<^verbatim>\<open>map[string][]string\<close>. \<^verbatim>\<open>Get\<close> and \<^verbatim>\<open>Set\<close> canonicalise the
  key first: a key made of token bytes only gets its first letter and every letter after a
  dash in upper case and all other letters in lower case; any other key is left as it is.
\<close>

type_synonym Header = "string \<rightharpoonup> string list"

text \<open>\<open>between lo hi c\<close> is the byte comparison \<^verbatim>\<open>lo <= c && c <= hi\<close>.\<close>

definition between :: "char \<Rightarrow> char \<Rightarrow> char \<Rightarrow> bool" where
  "between lo hi c = ((of_char lo :: nat) \<le> of_char c \<and> (of_char c :: nat) \<le> of_char hi)"

definition isAlpha :: "char \<Rightarrow> bool" where
  "isAlpha c = (between CHR ''a'' CHR ''z'' c \<or> between CHR ''A'' CHR ''Z'' c)"

definition isDigit :: "char \<Rightarrow> bool" where
  "isDigit c = between CHR ''0'' CHR ''9'' c"

definition validHeaderFieldByte :: "char \<Rightarrow> bool" where
  "validHeaderFieldByte c = (isAlpha c \<or> isDigit c \<or> c \<in> set ''!#$%&*+-.^_`|~'' \<or> c = CHR 0x27)"

fun canonicalLoop :: "bool \<Rightarrow> string \<Rightarrow> string" where
  "canonicalLoop upper [] = []"
| "canonicalLoop upper (c # cs) =
     (let c' = (if upper \<and> between CHR ''a'' CHR ''z'' c then char_of (of_char c - (32::nat))
                else if \<not> upper \<and> between CHR ''A'' CHR ''Z'' c then char_of (of_char c + (32::nat))
                else c)
      in c' # canonicalLoop (c' = CHR ''-'') cs)"

definition CanonicalMIMEHeaderKey :: "string \<Rightarrow> string" where
  "CanonicalMIMEHeaderKey s = (if list_all validHeaderFieldByte s then canonicalLoop True s else s)"

definition Header_Get :: "Header \<Rightarrow> string \<Rightarrow> string" where
  "Header_Get h key =
     (case h (CanonicalMIMEHeaderKey key) of
        None \<Rightarrow> []
      | Some [] \<Rightarrow> []
      | Some (v # _) \<Rightarrow> v)"

definition Header_Set :: "Header \<Rightarrow> string \<Rightarrow> string \<Rightarrow> Header" where
  "Header_Set h key v = h(CanonicalMIMEHeaderKey key \<mapsto> [v])"

definition HeaderAuthorization :: string where
  "HeaderAuthorization = ''Authorization''"

definition HeaderMacaroonMD :: string where
  "HeaderMacaroonMD = ''Grpc-Metadata-Macaroon''"

definition HeaderMacaroon :: string where
  "HeaderMacaroon = ''Macaroon''"

subsection \<open>encoding/hex\<close>

definition hextable :: string where
  "hextable = ''0123456789abcdef''"

definition fromHexChar :: "char \<Rightarrow> nat option" where
  "fromHexChar c =
     (if between CHR ''0'' CHR ''9'' c then Some (of_char c - of_char CHR ''0'')
      else if between CHR ''a'' CHR ''f'' c then Some (of_char c - of_char CHR ''a'' + 10)
      else if between CHR ''A'' CHR ''F'' c then Some (of_char c - of_char CHR ''A'' + 10)
      else None)"

fun hex_EncodeToString :: "byte list \<Rightarrow> string" where
  "hex_EncodeToString [] = []"
| "hex_EncodeToString (v # vs) =
     hextable ! (unat v div 16) # hextable ! (unat v mod 16) # hex_EncodeToString vs"

fun hex_DecodeString :: "string \<Rightarrow> error + byte list" where
  "hex_DecodeString [] = Inr []"
| "hex_DecodeString [p] =
     (case fromHexChar p of None \<Rightarrow> Inl (InvalidByteError p) | Some _ \<Rightarrow> Inl ErrLength)"
| "hex_DecodeString (p # q # rest) =
     (case fromHexChar p of
        None \<Rightarrow> Inl (InvalidByteError p)
      | Some a \<Rightarrow>
          (case fromHexChar q of
             None \<Rightarrow> Inl (InvalidByteError q)
           | Some b \<Rightarrow>
               (case hex_DecodeString rest of
                  Inl e \<Rightarrow> Inl e
                | Inr bs \<Rightarrow> Inr (word_of_nat (a * 16 + b) # bs))))"

subsection \<open>encoding/base64, the standard encoding with padding\<close>

definition encodeStd :: string where
  "encodeStd = ''ABCDEFGHIJKLMNOPQRSTUVWXYZabcdefghijklmnopqrstuvwxyz0123456789+/''"

fun index_of :: "'a \<Rightarrow> 'a list \<Rightarrow> nat option" where
  "index_of x [] = None"
| "index_of x (y # ys) = (if x = y then Some 0 else map_option Suc (index_of x ys))"

definition decodeMap :: "char \<Rightarrow> nat option" where
  "decodeMap c = index_of c encodeStd"

text \<open>
  The encoder packs three bytes into a 24-bit value and emits its four 6-bit digits; the
  shifts and masks of the source are written as \<open>div\<close> and \<open>mod\<close> by powers of two.
\<close>

fun base64_EncodeToString :: "byte list \<Rightarrow> string" where
  "base64_EncodeToString [] = []"
| "base64_EncodeToString [a] =
     (let val = unat a * 65536
      in [encodeStd ! (val div 262144 mod 64), encodeStd ! (val div 4096 mod 64),
          CHR ''='', CHR ''=''])"
| "base64_EncodeToString [a, b] =
     (let val = unat a * 65536 + unat b * 256
      in [encodeStd ! (val div 262144 mod 64), encodeStd ! (val div 4096 mod 64),
          encodeStd ! (val div 64 mod 64), CHR ''=''])"
| "base64_EncodeToString (a # b # c # rest) =
     (let val = unat a * 65536 + unat b * 256 + unat c
      in [encodeStd ! (val div 262144 mod 64), encodeStd ! (val div 4096 mod 64),
          encodeStd ! (val div 64 mod 64), encodeStd ! (val mod 64)]
         @ base64_EncodeToString rest)"

definition isNewline :: "char \<Rightarrow> bool" where
  "isNewline c = (c = CHR 0x0A \<or> c = CHR 0x0D)"

text \<open>
  The bytes of one quantum: \<open>dbuf\<close> holds the two, three or four 6-bit digits read, and
  one byte fewer comes out.
\<close>

definition quantumBytes :: "nat list \<Rightarrow> byte list" where
  "quantumBytes dbuf =
     (let d = dbuf @ replicate (4 - length dbuf) 0;
          val = d ! 0 * 262144 + d ! 1 * 4096 + d ! 2 * 64 + d ! 3
      in take (length dbuf - 1)
           [word_of_nat (val div 65536), word_of_nat (val div 256), word_of_nat val])"

text \<open>
  The decoder reads quantum after quantum; \<open>dbuf\<close> is the digits of the quantum being
  read. Line feeds and carriage returns are skipped. Padding may only close the last
  quantum, after two or three digits, and only newlines may follow it. Input that ends
  inside a quantum is corrupt.
\<close>

fun base64_decode :: "nat list \<Rightarrow> string \<Rightarrow> error + byte list" where
  "base64_decode dbuf [] = (if dbuf = [] then Inr [] else Inl CorruptInputError)"
| "base64_decode dbuf (c # cs) =
     (case decodeMap c of
        Some v \<Rightarrow>
          (if length dbuf = 3
           then (case base64_decode [] cs of
                   Inl e \<Rightarrow> Inl e
                 | Inr bs \<Rightarrow> Inr (quantumBytes (dbuf @ [v]) @ bs))
           else base64_decode (dbuf @ [v]) cs)
      | None \<Rightarrow>
          (if isNewline c then base64_decode dbuf cs
           else if c \<noteq> CHR ''='' then Inl CorruptInputError
           else if length dbuf < 2 then Inl CorruptInputError
           else if length dbuf = 2
           then (case dropWhile isNewline cs of
                   [] \<Rightarrow> Inl CorruptInputError
                 | d # ds \<Rightarrow>
                     (if d \<noteq> CHR ''='' then Inl CorruptInputError
                      else if dropWhile isNewline ds \<noteq> [] then Inl CorruptInputError
                      else Inr (quantumBytes dbuf)))
           else (if dropWhile isNewline cs \<noteq> [] then Inl CorruptInputError
                 else Inr (quantumBytes dbuf))))"

definition base64_DecodeString :: "string \<Rightarrow> error + byte list" where
  "base64_DecodeString s = base64_decode [] s"

subsection \<open>lntypes.Preimage\<close>

text \<open>
  A preimage is a 32-byte array, modelled as a list of bytes: \<open>MakePreimage\<close> checks the
  length as the source does, and a statement about any preimage carries the length as a
  hypothesis. \<open>String\<close> renders a preimage in lower-case hex.
\<close>

type_synonym Preimage = "byte list"

definition PreimageSize :: nat where
  "PreimageSize = 32"

definition MakePreimage :: "byte list \<Rightarrow> error + Preimage" where
  "MakePreimage newPreimage =
     (if length newPreimage \<noteq> PreimageSize then Inl (InvalidPreimageLength (length newPreimage))
      else Inr newPreimage)"

definition MakePreimageFromStr :: "string \<Rightarrow> error + Preimage" where
  "MakePreimageFromStr newPreimage =
     (if length newPreimage \<noteq> PreimageSize * 2
      then Inl (InvalidPreimageStringLength (length newPreimage))
      else (case hex_DecodeString newPreimage of
              Inl e \<Rightarrow> Inl e
            | Inr preimage \<Rightarrow> MakePreimage preimage))"

definition Preimage_String :: "Preimage \<Rightarrow> string" where
  "Preimage_String p = hex_EncodeToString p"

subsection \<open>The pattern of the Authorization field\<close>

text \<open>
  \<^verbatim>\<open>authRegex = regexp.MustCompile("LSAT (.*?):([a-f0-9]{64})")\<close>. The pattern has no
  anchors, so the engine looks for the leftmost place where it matches. \<open>lazyGroups\<close> is
  the part after the literal \<^verbatim>\<open>LSAT \<close>: the lazy \<^verbatim>\<open>.*?\<close> stops at the first colon that 64
  lower-case hex characters follow, and \<^verbatim>\<open>.\<close> does not match a line feed. The colon and
  the line feed are ASCII, so reading the string byte by byte finds the same match as
  reading it rune by rune.
\<close>

definition isLowerHex :: "char \<Rightarrow> bool" where
  "isLowerHex c = (between CHR ''a'' CHR ''f'' c \<or> between CHR ''0'' CHR ''9'' c)"

fun lazyGroups :: "string \<Rightarrow> (string \<times> string) option" where
  "lazyGroups [] = None"
| "lazyGroups (c # cs) =
     (if c = CHR '':'' \<and> 64 \<le> length cs \<and> list_all isLowerHex (take 64 cs)
      then Some ([], take 64 cs)
      else if c = CHR 0x0A then None
      else map_option (\<lambda>(m, p). (c # m, p)) (lazyGroups cs))"

text \<open>
  \<open>FindStringSubmatch\<close> returns the whole match and the two groups, or the empty (nil)
  slice when there is no match; \<open>MatchString\<close> reports whether there is a match.
\<close>

fun FindStringSubmatch :: "string \<Rightarrow> string list" where
  "FindStringSubmatch [] = []"
| "FindStringSubmatch (c # cs) =
     (case (if take 5 (c # cs) = ''LSAT '' then lazyGroups (drop 5 (c # cs)) else None) of
        Some (m, p) \<Rightarrow> [''LSAT '' @ m @ '':'' @ p, m, p]
      | None \<Rightarrow> FindStringSubmatch cs)"

definition MatchString :: "string \<Rightarrow> bool" where
  "MatchString s = (FindStringSubmatch s \<noteq> [])"

subsection \<open>The collaborators: macaroon library, caveat extraction, minter\<close>

text \<open>
  The macaroon library (\<^verbatim>\<open>gopkg.in/macaroon.v2\<close>) and the caveat extraction of the
  \<^verbatim>\<open>macaroons\<close> package are not part of this file: the functions below take them as a
  parameter, for any type \<open>'mac\<close> of macaroons. \<open>MarshalBinary\<close> returns no bytes with its
  error. \<open>CondPreimage\<close> is the name of the caveat that carries the preimage.
\<close>

record 'mac MacaroonLib =
  MarshalBinary :: "'mac \<Rightarrow> error + byte list"
  UnmarshalBinary :: "byte list \<Rightarrow> error + 'mac"
  ExtractCaveat :: "'mac \<Rightarrow> string \<Rightarrow> error + string"
  CondPreimage :: string

text \<open>\<^verbatim>\<open>lsat.Service\<close>; \<^verbatim>\<open>lsat.ServiceTier\<close> is a \<^verbatim>\<open>uint8\<close> and \<^verbatim>\<open>BaseTier\<close> its first value.\<close>

record Service =
  Name :: string
  Tier :: "8 word"

definition BaseTier :: "8 word" where
  "BaseTier = 0"

record 'mac VerificationParams =
  Macaroon :: 'mac
  Preimage :: Preimage
  TargetService :: string

text \<open>
  The \<^verbatim>\<open>Minter\<close> interface. A minter may keep state (the secrets of the macaroons it
  minted), so each call takes the minter's state \<open>'ms\<close> and returns the new one.
\<close>

record ('mac, 'ms) Minter =
  MintLSAT :: "'ms \<Rightarrow> Service \<Rightarrow> (error + ('mac \<times> string)) \<times> 'ms"
  VerifyLSAT :: "'ms \<Rightarrow> 'mac VerificationParams \<Rightarrow> error option \<times> 'ms"

subsection \<open>FromHeader\<close>

text \<open>
  The code after the \<^verbatim>\<open>switch\<close>, which the second and the third case share: the field
  holds the macaroon in hex and the preimage is a caveat of the macaroon.
\<close>

definition fromMacaroonHex :: "'mac MacaroonLib \<Rightarrow> string \<Rightarrow> error + ('mac \<times> Preimage)" where
  "fromMacaroonHex lib authHeader =
     (case hex_DecodeString authHeader of
        Inl err \<Rightarrow> Inl (MacaroonHexDecodeFailed err)
      | Inr macBytes \<Rightarrow>
          (case UnmarshalBinary lib macBytes of
             Inl err \<Rightarrow> Inl (UnmarshalMacaroonFailed err)
           | Inr mac \<Rightarrow>
               (case ExtractCaveat lib mac (CondPreimage lib) of
                  Inl err \<Rightarrow> Inl (ExtractPreimageFailed err)
                | Inr preimageHex \<Rightarrow>
                    (case MakePreimageFromStr preimageHex of
                       Inl err \<Rightarrow> Inl (PreimageHexDecodeFailed err)
                     | Inr preimage \<Rightarrow> Inr (mac, preimage)))))"

definition FromHeader :: "'mac MacaroonLib \<Rightarrow> Header \<Rightarrow> error + ('mac \<times> Preimage)" where
  "FromHeader lib header =
     (if Header_Get header HeaderAuthorization \<noteq> [] then
        (let authHeader = Header_Get header HeaderAuthorization in
         if \<not> MatchString authHeader then Inl (InvalidAuthHeaderFormat authHeader)
         else
           (case FindStringSubmatch authHeader of
              [whole, macBase64, preimageHex] \<Rightarrow>
                (case base64_DecodeString macBase64 of
                   Inl err \<Rightarrow> Inl (Base64DecodeFailed err)
                 | Inr macBytes \<Rightarrow>
                     (case UnmarshalBinary lib macBytes of
                        Inl err \<Rightarrow> Inl (UnmarshalMacaroonFailed err)
                      | Inr mac \<Rightarrow>
                          (case MakePreimageFromStr preimageHex of
                             Inl err \<Rightarrow> Inl (PreimageHexDecodeFailed err)
                           | Inr preimage \<Rightarrow> Inr (mac, preimage))))
            | _ \<Rightarrow> Inl (InvalidAuthHeaderFormat authHeader)))
      else if Header_Get header HeaderMacaroonMD \<noteq> [] then
        fromMacaroonHex lib (Header_Get header HeaderMacaroonMD)
      else if Header_Get header HeaderMacaroon \<noteq> [] then
        fromMacaroonHex lib (Header_Get header HeaderMacaroon)
      else Inl NoAuthHeaderProvided)"

subsection \<open>SetHeader\<close>

text \<open>The header is written in place; the model returns the error and the header after the call.\<close>

definition SetHeader ::
  "'mac MacaroonLib \<Rightarrow> Header \<Rightarrow> 'mac \<Rightarrow> Preimage \<Rightarrow> error option \<times> Header" where
  "SetHeader lib header mac preimage =
     (case MarshalBinary lib mac of
        Inl err \<Rightarrow> (Some err, header)
      | Inr macBytes \<Rightarrow>
          (let val = ''LSAT '' @ base64_EncodeToString macBytes @ '':'' @ Preimage_String preimage
           in (None, Header_Set header HeaderAuthorization val)))"

subsection \<open>Accept\<close>

text \<open>The result is the verdict and the minter's state after the call.\<close>

definition Accept ::
  "('mac, 'ms) Minter \<Rightarrow> 'mac MacaroonLib \<Rightarrow> 'ms \<Rightarrow> Header \<Rightarrow> string \<Rightarrow> bool \<times> 'ms" where
  "Accept minter lib ms header serviceName =
     (case FromHeader lib header of
        Inl err \<Rightarrow> (False, ms)
      | Inr (mac, preimage) \<Rightarrow>
          (let verificationParams =
                 \<lparr>Macaroon = mac, Preimage = preimage, TargetService = serviceName\<rparr>
           in case VerifyLSAT minter ms verificationParams of
                (Some err, ms') \<Rightarrow> (False, ms')
              | (None, ms') \<Rightarrow> (True, ms')))"

subsection \<open>FreshChallengeHeader\<close>

text \<open>
  A Go map is a reference: \<^verbatim>\<open>header := r.Header\<close> names the request's own map and
  \<^verbatim>\<open>header.Set\<close> writes into it. The header maps live in a store, a request holds the
  address of its map, and the function returns the address it hands back together with
  the store and the minter's state after the call.
\<close>

type_synonym href = nat

type_synonym hstore = "href \<Rightarrow> Header"

record Request =
  Header :: href

definition challengeString :: "string \<Rightarrow> string \<Rightarrow> string" where
  "challengeString macBase64 paymentRequest =
     ''LSAT macaroon='' @ [CHR 0x27] @ macBase64 @ [CHR 0x27] @
     '' invoice='' @ [CHR 0x27] @ paymentRequest @ [CHR 0x27]"

definition FreshChallengeHeader ::
  "('mac, 'ms) Minter \<Rightarrow> 'mac MacaroonLib \<Rightarrow> 'ms \<Rightarrow> hstore \<Rightarrow> Request \<Rightarrow> string \<Rightarrow>
     (error + href) \<times> hstore \<times> 'ms" where
  "FreshChallengeHeader minter lib ms store r serviceName =
     (let service = \<lparr>Name = serviceName, Tier = BaseTier\<rparr> in
      case MintLSAT minter ms service of
        (Inl err, ms') \<Rightarrow> (Inl err, store, ms')
      | (Inr (mac, paymentRequest), ms') \<Rightarrow>
          (let macBytes = (case MarshalBinary lib mac of Inl err \<Rightarrow> [] | Inr bs \<Rightarrow> bs);
               str = challengeString (base64_EncodeToString macBytes) paymentRequest;
               header = Header r
           in (Inr header,
               store(header := Header_Set (store header) ''WWW-Authenticate'' str),
               ms')))"

subsection \<open>A small instance of the collaborators\<close>

text \<open>
  Concrete collaborators on which the functions can be run. A macaroon of \<open>testLib\<close> is its
  own binary form, the empty one being invalid; a macaroon whose first byte is 1 carries
  the rest of its bytes, in hex, as its preimage caveat. \<open>testMinter\<close> logs every call in
  its state, fails to mint for the service \<^verbatim>\<open>down\<close>, mints a macaroon that cannot be
  serialised for the service \<^verbatim>\<open>broken\<close>, and verifies for the service \<^verbatim>\<open>svc\<close> only.
\<close>

datatype testCall = MintCall Service | VerifyCall string

definition testLib :: "byte list MacaroonLib" where
  "testLib =
     \<lparr>MarshalBinary = (\<lambda>m. if m = [] then Inl (External ''empty macaroon'') else Inr m),
      UnmarshalBinary = (\<lambda>bs. if bs = [] then Inl (External ''empty macaroon'') else Inr bs),
      ExtractCaveat = (\<lambda>m cond.
        case m of
          [] \<Rightarrow> Inl (External ''caveat not found'')
        | t # rest \<Rightarrow>
            if t = 1 \<and> cond = ''preimage'' then Inr (hex_EncodeToString rest)
            else Inl (External ''caveat not found'')),
      CondPreimage = ''preimage''\<rparr>"

definition testMinter :: "(byte list, testCall list) Minter" where
  "testMinter =
     \<lparr>MintLSAT = (\<lambda>ms service.
        (if Name service = ''down'' then Inl (External ''mint failed'')
         else if Name service = ''broken'' then Inr ([], ''lnbc1'')
         else Inr ([1, 2, 3], ''lnbc1''),
         ms @ [MintCall service])),
      VerifyLSAT = (\<lambda>ms params.
        (if TargetService params = ''svc'' then None else Some (External ''denied''),
         ms @ [VerifyCall (TargetService params)]))\<rparr>"

section \<open>Properties of the libraries\<close>

subsection \<open>base64\<close>

lemma unat_byte_less: "unat (a :: byte) < 256"
  using unsigned_less [of a] by simp

lemma byte_of_nat_mod: "(word_of_nat n :: byte) = word_of_nat (n mod 256)"
  by (simp add: word_of_nat_eq_iff take_bit_eq_mod)

lemma bytes_of_value:
  fixes a b c :: byte
  shows "word_of_nat ((unat a * 65536 + unat b * 256 + unat c) div 65536) = a"
    and "word_of_nat ((unat a * 65536 + unat b * 256 + unat c) div 256) = b"
    and "word_of_nat (unat a * 65536 + unat b * 256 + unat c) = c"
proof -
  have la: "unat a < 256" and lb: "unat b < 256" and lc: "unat c < 256"
    by (rule unat_byte_less)+
  have "(unat a * 65536 + unat b * 256 + unat c) div 65536 = unat a"
    using lb lc by simp
  then show "word_of_nat ((unat a * 65536 + unat b * 256 + unat c) div 65536) = a" by simp
  have "(unat a * 65536 + unat b * 256 + unat c) div 256 = unat a * 256 + unat b"
    using lc by simp
  then show "word_of_nat ((unat a * 65536 + unat b * 256 + unat c) div 256) = b"
    using lb by (subst byte_of_nat_mod) simp
  have "unat a * 65536 + unat b * 256 + unat c = (unat a * 256 + unat b) * 256 + unat c"
    by simp
  then have "(unat a * 65536 + unat b * 256 + unat c) mod 256 = unat c mod 256"
    by (simp only: mod_mult_self3)
  then have "(unat a * 65536 + unat b * 256 + unat c) mod 256 = unat c"
    using lc by simp
  then show "word_of_nat (unat a * 65536 + unat b * 256 + unat c) = c"
    by (subst byte_of_nat_mod) simp
qed

lemma index_of_nth: "distinct xs \<Longrightarrow> n < length xs \<Longrightarrow> index_of (xs ! n) xs = Some n"
proof (induction xs arbitrary: n)
  case Nil then show ?case by simp
next
  case (Cons x xs)
  show ?case
  proof (cases n)
    case 0 then show ?thesis by simp
  next
    case (Suc k)
    with Cons.prems have "xs ! k \<in> set xs" "x \<notin> set xs" by auto
    then have "xs ! k \<noteq> x" by auto
    with Suc Cons show ?thesis by auto
  qed
qed

lemma index_of_None: "x \<notin> set xs \<Longrightarrow> index_of x xs = None"
  by (induction xs) auto

lemma decodeMap_encodeStd: "n < 64 \<Longrightarrow> decodeMap (encodeStd ! n) = Some n"
  unfolding decodeMap_def by (rule index_of_nth) (simp_all add: encodeStd_def)

lemma decodeMap_pad: "decodeMap CHR ''='' = None"
  unfolding decodeMap_def by (rule index_of_None) (simp add: encodeStd_def)

lemma encodeStd_nth_in: "n < 64 \<Longrightarrow> encodeStd ! n \<in> set encodeStd"
  by (rule nth_mem) (simp add: encodeStd_def)


lemma sextets_value:
  fixes v :: nat
  assumes "v < 16777216"
  shows "(v div 262144 mod 64) * 262144 + (v div 4096 mod 64) * 4096 + (v div 64 mod 64) * 64 + v mod 64 = v"
proof -
  define q1 where "q1 = v div 64"
  define q2 where "q2 = q1 div 64"
  define q3 where "q3 = q2 div 64"
  have e1: "v = q1 * 64 + v mod 64" by (simp add: q1_def)
  have e2: "q1 = q2 * 64 + q1 mod 64" by (simp add: q2_def)
  have e3: "q2 = q3 * 64 + q2 mod 64" by (simp add: q3_def)
  have d2: "v div 4096 = q2" by (simp add: q2_def q1_def div_mult2_eq)
  have d3: "v div 262144 = q3" by (simp add: q3_def q2_def q1_def div_mult2_eq)
  have "q3 < 64" using assms unfolding d3 [symmetric] by simp
  then have m3: "q3 mod 64 = q3" by simp
  show ?thesis
    unfolding d2 d3 m3 q1_def [symmetric] using e1 e2 e3 by linarith
qed

lemma value_less:
  fixes a b c :: byte
  shows "unat a * 65536 + unat b * 256 + unat c < 16777216"
  using unat_byte_less [of a] unat_byte_less [of b] unat_byte_less [of c] by linarith

lemma quantumBytes4:
  assumes "n0 * 262144 + n1 * 4096 + n2 * 64 + n3 = v"
  shows "quantumBytes [n0, n1, n2, n3] =
    [word_of_nat (v div 65536), word_of_nat (v div 256), word_of_nat v]"
  by (simp add: quantumBytes_def Let_def assms [symmetric])

lemma quantumBytes3:
  assumes "n0 * 262144 + n1 * 4096 + n2 * 64 = v"
  shows "quantumBytes [n0, n1, n2] = [word_of_nat (v div 65536), word_of_nat (v div 256)]"
  by (simp add: quantumBytes_def Let_def assms [symmetric])

lemma quantumBytes2:
  assumes "n0 * 262144 + n1 * 4096 = v"
  shows "quantumBytes [n0, n1] = [word_of_nat (v div 65536)]"
  by (simp add: quantumBytes_def Let_def assms [symmetric])

lemma isNewline_pad: "\<not> isNewline CHR ''=''"
  by (simp add: isNewline_def)

lemma decode_full_quantum:
  assumes "n0 < 64" "n1 < 64" "n2 < 64" "n3 < 64"
  shows "base64_decode [] (encodeStd ! n0 # encodeStd ! n1 # encodeStd ! n2 # encodeStd ! n3 # rest) =
    (case base64_decode [] rest of Inl e \<Rightarrow> Inl e | Inr bs \<Rightarrow> Inr (quantumBytes [n0, n1, n2, n3] @ bs))"
  using assms by (simp add: decodeMap_encodeStd split: sum.split)

lemma decode_pad1:
  assumes "n0 < 64" "n1 < 64" "n2 < 64"
  shows "base64_decode [] [encodeStd ! n0, encodeStd ! n1, encodeStd ! n2, CHR ''=''] =
    Inr (quantumBytes [n0, n1, n2])"
  using assms by (simp add: decodeMap_encodeStd decodeMap_pad isNewline_pad)

lemma decode_pad2:
  assumes "n0 < 64" "n1 < 64"
  shows "base64_decode [] [encodeStd ! n0, encodeStd ! n1, CHR ''='', CHR ''=''] =
    Inr (quantumBytes [n0, n1])"
  using assms by (simp add: decodeMap_encodeStd decodeMap_pad isNewline_pad)

lemma base64_roundtrip4:
  fixes a b c :: byte
  assumes rest: "base64_decode [] (base64_EncodeToString rest) = Inr rest"
  shows "base64_decode [] (base64_EncodeToString (a # b # c # rest)) = Inr (a # b # c # rest)"
proof -
  define v where "v = unat a * 65536 + unat b * 256 + unat c"
  have enc: "base64_EncodeToString (a # b # c # rest) =
      encodeStd ! (v div 262144 mod 64) # encodeStd ! (v div 4096 mod 64) #
      encodeStd ! (v div 64 mod 64) # encodeStd ! (v mod 64) # base64_EncodeToString rest"
    unfolding v_def base64_EncodeToString.simps Let_def by (simp only: append_Cons append_Nil)
  have "v < 16777216" unfolding v_def by (rule value_less)
  from quantumBytes4 [OF sextets_value [OF this]]
  have q: "quantumBytes [v div 262144 mod 64, v div 4096 mod 64, v div 64 mod 64, v mod 64] = [a, b, c]"
    unfolding v_def by (simp only: bytes_of_value)
  have dec: "base64_decode [] (base64_EncodeToString (a # b # c # rest)) =
      (case base64_decode [] (base64_EncodeToString rest) of Inl e \<Rightarrow> Inl e
       | Inr bs \<Rightarrow> Inr (quantumBytes [v div 262144 mod 64, v div 4096 mod 64, v div 64 mod 64, v mod 64] @ bs))"
    unfolding enc by (rule decode_full_quantum) simp_all
  show ?thesis unfolding dec q rest by simp
qed

lemma base64_roundtrip3:
  fixes a b :: byte
  shows "base64_decode [] (base64_EncodeToString [a, b]) = Inr [a, b]"
proof -
  define v where "v = unat a * 65536 + unat b * 256"
  have enc: "base64_EncodeToString [a, b] =
      [encodeStd ! (v div 262144 mod 64), encodeStd ! (v div 4096 mod 64),
       encodeStd ! (v div 64 mod 64), CHR ''='']"
    unfolding v_def base64_EncodeToString.simps Let_def by (rule refl)
  have v0: "v = unat a * 65536 + unat b * 256 + unat (0 :: byte)" by (simp add: v_def)
  have "v < 16777216" unfolding v0 by (rule value_less)
  note s = sextets_value [OF this]
  have "v = (unat a * 1024 + unat b * 4) * 64" by (simp add: v_def)
  then have "v mod 64 = 0" by (simp only: mod_mult_self2_is_0)
  with s have "(v div 262144 mod 64) * 262144 + (v div 4096 mod 64) * 4096 + (v div 64 mod 64) * 64 = v"
    by (simp only: add_0_right)
  from quantumBytes3 [OF this]
  have q: "quantumBytes [v div 262144 mod 64, v div 4096 mod 64, v div 64 mod 64] = [a, b]"
    unfolding v0 by (simp only: bytes_of_value)
  have dec: "base64_decode [] (base64_EncodeToString [a, b]) =
      Inr (quantumBytes [v div 262144 mod 64, v div 4096 mod 64, v div 64 mod 64])"
    unfolding enc by (rule decode_pad1) simp_all
  show ?thesis unfolding dec q by simp
qed

lemma base64_roundtrip2:
  fixes a :: byte
  shows "base64_decode [] (base64_EncodeToString [a]) = Inr [a]"
proof -
  define v where "v = unat a * 65536"
  have enc: "base64_EncodeToString [a] =
      [encodeStd ! (v div 262144 mod 64), encodeStd ! (v div 4096 mod 64), CHR ''='', CHR ''='']"
    unfolding v_def base64_EncodeToString.simps Let_def by (rule refl)
  have v0: "v = unat a * 65536 + unat (0 :: byte) * 256 + unat (0 :: byte)" by (simp add: v_def)
  have "v < 16777216" unfolding v0 by (rule value_less)
  note s = sextets_value [OF this]
  have "v = (unat a * 1024) * 64" by (simp add: v_def)
  then have m: "v mod 64 = 0" by (simp only: mod_mult_self2_is_0)
  have "v div 64 = (unat a * 16) * 64" by (simp add: v_def)
  then have "v div 64 mod 64 = 0" by (simp only: mod_mult_self2_is_0)
  with s m have "(v div 262144 mod 64) * 262144 + (v div 4096 mod 64) * 4096 = v"
    by (simp only: add_0_right mult_0)
  from quantumBytes2 [OF this]
  have q: "quantumBytes [v div 262144 mod 64, v div 4096 mod 64] = [a]"
    unfolding v0 by (simp only: bytes_of_value)
  have dec: "base64_decode [] (base64_EncodeToString [a]) =
      Inr (quantumBytes [v div 262144 mod 64, v div 4096 mod 64])"
    unfolding enc by (rule decode_pad2) simp_all
  show ?thesis unfolding dec q by simp
qed

lemma base64_roundtrip: "base64_DecodeString (base64_EncodeToString bs) = Inr bs"
  unfolding base64_DecodeString_def
proof (induction bs rule: base64_EncodeToString.induct)
  case 1
  show ?case by simp
next
  case (2 a)
  show ?case by (rule base64_roundtrip2)
next
  case (3 a b)
  show ?case by (rule base64_roundtrip3)
next
  case (4 a b c rest)
  from "4.IH" [OF refl] show ?case by (rule base64_roundtrip4)
qed

lemma base64_alphabet:
  "set (base64_EncodeToString bs) \<subseteq> set encodeStd \<union> {CHR ''=''}"
  by (induction bs rule: base64_EncodeToString.induct)
     (auto simp: Let_def encodeStd_nth_in)

lemma base64_no_colon: "CHR '':'' \<notin> set (base64_EncodeToString bs)"
  using base64_alphabet [of bs] by (auto simp: encodeStd_def)

lemma base64_no_newline: "CHR 0x0A \<notin> set (base64_EncodeToString bs)"
  using base64_alphabet [of bs] by (auto simp: encodeStd_def)

subsection \<open>hex and preimages\<close>

lemma hextable_all:
  "list_all (\<lambda>n. fromHexChar (hextable ! n) = Some n \<and> isLowerHex (hextable ! n)) [0..<16]"
  by code_simp

lemma fromHexChar_hextable: "n < 16 \<Longrightarrow> fromHexChar (hextable ! n) = Some n"
  using hextable_all by (simp add: list_all_iff)

lemma isLowerHex_hextable: "n < 16 \<Longrightarrow> isLowerHex (hextable ! n)"
  using hextable_all by (simp add: list_all_iff)

lemma byte_nibbles: "word_of_nat (unat (v :: byte) div 16 * 16 + unat v mod 16) = v"
  by simp

lemma hex_roundtrip: "hex_DecodeString (hex_EncodeToString bs) = Inr bs"
proof (induction bs)
  case Nil show ?case by simp
next
  case (Cons v vs)
  have "unat v div 16 < 16" using unat_byte_less [of v] by simp
  moreover have "unat v mod 16 < 16" by simp
  ultimately show ?case using Cons
    by (simp add: fromHexChar_hextable byte_nibbles del: of_nat_add of_nat_mult)
qed

lemma hex_length: "length (hex_EncodeToString bs) = 2 * length bs"
  by (induction bs) simp_all

lemma hex_lower: "list_all isLowerHex (hex_EncodeToString bs)"
proof (induction bs)
  case Nil show ?case by simp
next
  case (Cons v vs)
  have "unat v div 16 < 16" using unat_byte_less [of v] by simp
  moreover have "unat v mod 16 < 16" by simp
  ultimately show ?case using Cons by (simp add: isLowerHex_hextable)
qed

lemma hex_decode_length: "hex_DecodeString s = Inr bs \<Longrightarrow> length s = 2 * length bs"
  by (induction s arbitrary: bs rule: hex_DecodeString.induct)
     (auto split: option.splits sum.splits)

lemma MakePreimageFromStr_String:
  "length p = 32 \<Longrightarrow> MakePreimageFromStr (Preimage_String p) = Inr p"
  by (simp add: MakePreimageFromStr_def Preimage_String_def hex_length hex_roundtrip
      MakePreimage_def PreimageSize_def)

subsection \<open>The pattern and the header map\<close>



lemma lazyGroups_exact:
  assumes "CHR '':'' \<notin> set m" "CHR 0x0A \<notin> set m" "length p = 64" "list_all isLowerHex p"
  shows "lazyGroups (m @ CHR '':'' # p @ post) = Some (m, p)"
  using assms(1,2)
proof (induction m)
  case Nil
  show ?case using assms(3,4) by simp
next
  case (Cons c m)
  then show ?case by auto
qed



lemma FindStringSubmatch_exact:
  assumes "CHR '':'' \<notin> set m" "CHR 0x0A \<notin> set m" "length p = 64" "list_all isLowerHex p"
  shows "FindStringSubmatch (''LSAT '' @ m @ '':'' @ p @ post) = [''LSAT '' @ m @ '':'' @ p, m, p]"
  using lazyGroups_exact [OF assms, of post] by simp

lemma Header_Get_Set_same: "Header_Get (Header_Set h k v) k = v"
  by (simp add: Header_Get_def Header_Set_def)

lemma canonical_keys:
  "CanonicalMIMEHeaderKey HeaderAuthorization = ''Authorization''"
  "CanonicalMIMEHeaderKey HeaderMacaroonMD = ''Grpc-Metadata-Macaroon''"
  "CanonicalMIMEHeaderKey HeaderMacaroon = ''Macaroon''"
  "CanonicalMIMEHeaderKey ''WWW-Authenticate'' = ''Www-Authenticate''"
  by code_simp+

subsection \<open>FromHeader on a matching Authorization value\<close>

lemma MakePreimageFromStr_iff:
  "(MakePreimageFromStr s = Inr p) = (hex_DecodeString s = Inr p \<and> length p = 32)"
proof
  assume "MakePreimageFromStr s = Inr p"
  then show "hex_DecodeString s = Inr p \<and> length p = 32"
    by (auto simp: MakePreimageFromStr_def MakePreimage_def PreimageSize_def
        split: if_splits sum.splits)
next
  assume a: "hex_DecodeString s = Inr p \<and> length p = 32"
  then have "length s = 64" using hex_decode_length [of s p] by simp
  with a show "MakePreimageFromStr s = Inr p"
    by (simp add: MakePreimageFromStr_def MakePreimage_def PreimageSize_def)
qed

lemma FromHeader_layout1:
  assumes "CHR '':'' \<notin> set m" "CHR 0x0A \<notin> set m" "length p = 64" "list_all isLowerHex p"
    and "Header_Get header HeaderAuthorization = ''LSAT '' @ m @ '':'' @ p @ post"
  shows "FromHeader lib header =
    (case base64_DecodeString m of
       Inl err \<Rightarrow> Inl (Base64DecodeFailed err)
     | Inr macBytes \<Rightarrow>
         (case UnmarshalBinary lib macBytes of
            Inl err \<Rightarrow> Inl (UnmarshalMacaroonFailed err)
          | Inr mac \<Rightarrow>
              (case MakePreimageFromStr p of
                 Inl err \<Rightarrow> Inl (PreimageHexDecodeFailed err)
               | Inr preimage \<Rightarrow> Inr (mac, preimage))))"
proof -
  note f = FindStringSubmatch_exact [OF assms(1-4), of post]
  have ne: "''LSAT '' @ m @ '':'' @ p @ post \<noteq> []" by simp
  have ms: "MatchString (''LSAT '' @ m @ '':'' @ p @ post)"
    unfolding MatchString_def f by simp
  show ?thesis
    unfolding FromHeader_def assms(5) Let_def f using ne ms by simp
qed


subsection \<open>Facts about the small instance\<close>

lemma hex_replicate_aa: "hex_EncodeToString (replicate n (170 :: byte)) = replicate (2 * n) CHR ''a''"
  by (induction n) (simp_all add: hextable_def)

lemma base64_123: "base64_EncodeToString [1, 2, 3] = ''AQID''"
  by (simp add: encodeStd_def)

lemma test_macaroon_field:
  "FromHeader testLib [''Macaroon'' \<mapsto> [hex_EncodeToString (1 # replicate 32 171)]] =
     Inr (1 # replicate 32 171, replicate 32 171)"
proof -
  let ?v = "hex_EncodeToString (1 # replicate 32 (171 :: byte))"
  let ?h = "[''Macaroon'' \<mapsto> [?v]]"
  have g: "Header_Get ?h HeaderAuthorization = []" "Header_Get ?h HeaderMacaroonMD = []"
    "Header_Get ?h HeaderMacaroon = ?v"
    by (simp_all add: Header_Get_def canonical_keys)
  have ne: "?v \<noteq> []" by simp
  have p: "MakePreimageFromStr (hex_EncodeToString (replicate 32 (171 :: byte))) = Inr (replicate 32 171)"
    using MakePreimageFromStr_String [of "replicate 32 (171 :: byte)"]
    by (simp add: Preimage_String_def)
  have "fromMacaroonHex testLib ?v = Inr (1 # replicate 32 171, replicate 32 171)"
    unfolding fromMacaroonHex_def hex_roundtrip by (simp add: testLib_def p)
  then show ?thesis unfolding FromHeader_def g using ne by simp
qed






section \<open>The claims\<close>




text \<open>
  C2. The fields are tried in the order \<^verbatim>\<open>Authorization\<close>, \<^verbatim>\<open>Grpc-Metadata-Macaroon\<close>,
  \<^verbatim>\<open>Macaroon\<close>. With a non-empty \<^verbatim>\<open>Authorization\<close> value the result depends on that value
  only: two headers that agree on it give the same result, and a value the pattern does
  not match gives the format error whatever the other fields hold. With no
  \<^verbatim>\<open>Authorization\<close> value the result depends on \<^verbatim>\<open>Grpc-Metadata-Macaroon\<close> only when it
  is non-empty, and on \<^verbatim>\<open>Macaroon\<close> only otherwise.
\<close>

theorem FromHeader_priority:
  "(Header_Get header HeaderAuthorization \<noteq> [] \<longrightarrow>
      Header_Get header' HeaderAuthorization = Header_Get header HeaderAuthorization \<longrightarrow>
      FromHeader lib header' = FromHeader lib header) \<and>
   (Header_Get header HeaderAuthorization \<noteq> [] \<longrightarrow>
      \<not> MatchString (Header_Get header HeaderAuthorization) \<longrightarrow>
      FromHeader lib header = Inl (InvalidAuthHeaderFormat (Header_Get header HeaderAuthorization))) \<and>
   (Header_Get header HeaderAuthorization = [] \<longrightarrow> Header_Get header' HeaderAuthorization = [] \<longrightarrow>
      Header_Get header HeaderMacaroonMD \<noteq> [] \<longrightarrow>
      Header_Get header' HeaderMacaroonMD = Header_Get header HeaderMacaroonMD \<longrightarrow>
      FromHeader lib header' = FromHeader lib header) \<and>
   (Header_Get header HeaderAuthorization = [] \<longrightarrow> Header_Get header' HeaderAuthorization = [] \<longrightarrow>
      Header_Get header HeaderMacaroonMD = [] \<longrightarrow> Header_Get header' HeaderMacaroonMD = [] \<longrightarrow>
      Header_Get header' HeaderMacaroon = Header_Get header HeaderMacaroon \<longrightarrow>
      FromHeader lib header' = FromHeader lib header)"
  by (simp add: FromHeader_def)

theorem FromHeader_priority_witness:
  "FromHeader testLib
     [''Authorization'' \<mapsto> [''Bearer x''],
      ''Macaroon'' \<mapsto> [hex_EncodeToString (1 # replicate 32 171)]] =
     Inl (InvalidAuthHeaderFormat ''Bearer x'') \<and>
   FromHeader testLib [''Authorization'' \<mapsto> [''Bearer x'']] =
     FromHeader testLib
       [''Authorization'' \<mapsto> [''Bearer x''],
        ''Macaroon'' \<mapsto> [hex_EncodeToString (1 # replicate 32 171)]] \<and>
   FromHeader testLib [''Macaroon'' \<mapsto> [hex_EncodeToString (1 # replicate 32 171)]] =
     Inr (1 # replicate 32 171, replicate 32 171)"
proof -
  let ?h = "[''Authorization'' \<mapsto> [''Bearer x''],
      ''Macaroon'' \<mapsto> [hex_EncodeToString (1 # replicate 32 (171 :: byte))]]"
  let ?h' = "[''Authorization'' \<mapsto> [''Bearer x'']]"
  have g: "Header_Get ?h HeaderAuthorization = ''Bearer x''"
    and g': "Header_Get ?h' HeaderAuthorization = ''Bearer x''"
    by (simp_all add: Header_Get_def canonical_keys)
  have ne: "Header_Get ?h HeaderAuthorization \<noteq> []" unfolding g by simp
  have nm: "\<not> MatchString (Header_Get ?h HeaderAuthorization)"
    unfolding g by (simp add: MatchString_def)
  note t = FromHeader_priority [of ?h ?h' testLib]
  have 1: "FromHeader testLib ?h = Inl (InvalidAuthHeaderFormat ''Bearer x'')"
    using t [THEN conjunct2, THEN conjunct1, rule_format, OF ne nm] unfolding g .
  have 2: "FromHeader testLib ?h' = FromHeader testLib ?h"
    using t [THEN conjunct1, rule_format, OF ne] g g' by simp
  show ?thesis by (intro conjI 1 2 test_macaroon_field)
qed

text \<open>
  C3. \<open>Accept\<close> returns a verdict in every case. It is false, with the minter untouched,
  when \<open>FromHeader\<close> fails; false when \<open>VerifyLSAT\<close> returns an error; and true exactly
  when \<open>FromHeader\<close> succeeds and \<open>VerifyLSAT\<close>, called on the macaroon, the preimage and
  the service name, returns no error.
\<close>

theorem Accept_verdict:
  "(\<forall>e. FromHeader lib header = Inl e \<longrightarrow> Accept minter lib ms header serviceName = (False, ms)) \<and>
   (\<forall>mac preimage e ms'. FromHeader lib header = Inr (mac, preimage) \<longrightarrow>
      VerifyLSAT minter ms \<lparr>Macaroon = mac, Preimage = preimage, TargetService = serviceName\<rparr>
        = (Some e, ms') \<longrightarrow>
      Accept minter lib ms header serviceName = (False, ms')) \<and>
   (fst (Accept minter lib ms header serviceName) =
      (\<exists>mac preimage. FromHeader lib header = Inr (mac, preimage) \<and>
         fst (VerifyLSAT minter ms
           \<lparr>Macaroon = mac, Preimage = preimage, TargetService = serviceName\<rparr>) = None))"
proof (cases "FromHeader lib header")
  case (Inl e)
  then show ?thesis by (simp add: Accept_def)
next
  case (Inr r)
  obtain mac preimage where r: "r = (mac, preimage)" by (cases r)
  obtain res ms' where v: "VerifyLSAT minter ms
      \<lparr>Macaroon = mac, Preimage = preimage, TargetService = serviceName\<rparr> = (res, ms')"
    by (cases "VerifyLSAT minter ms
      \<lparr>Macaroon = mac, Preimage = preimage, TargetService = serviceName\<rparr>")
  show ?thesis using Inr r v by (cases res) (simp_all add: Accept_def)
qed

theorem Accept_verdict_witness:
  "fst (Accept testMinter testLib []
     [''Macaroon'' \<mapsto> [hex_EncodeToString (1 # replicate 32 171)]] ''svc'') \<and>
   Accept testMinter testLib []
     [''Macaroon'' \<mapsto> [hex_EncodeToString (1 # replicate 32 171)]] ''other'' =
     (False, [VerifyCall ''other'']) \<and>
   Accept testMinter testLib [] [''Macaroon'' \<mapsto> [''zz'']] ''svc'' = (False, [])"
proof -
  let ?h = "[''Macaroon'' \<mapsto> [hex_EncodeToString (1 # replicate 32 (171 :: byte))]]"
  note ok = test_macaroon_field
  have 1: "fst (Accept testMinter testLib [] ?h ''svc'')"
    using Accept_verdict [of testLib ?h testMinter "[]" "''svc''"] ok
    by (simp add: testMinter_def)
  have 2: "Accept testMinter testLib [] ?h ''other'' = (False, [VerifyCall ''other''])"
    using Accept_verdict [of testLib ?h testMinter "[]" "''other''"] ok
    by (simp add: testMinter_def)
  have g: "Header_Get [''Macaroon'' \<mapsto> [''zz'']] HeaderAuthorization = []"
    "Header_Get [''Macaroon'' \<mapsto> [''zz'']] HeaderMacaroonMD = []"
    "Header_Get [''Macaroon'' \<mapsto> [''zz'']] HeaderMacaroon = ''zz''"
    by (simp_all add: Header_Get_def canonical_keys)
  have "FromHeader testLib [''Macaroon'' \<mapsto> [''zz'']] =
      Inl (MacaroonHexDecodeFailed (InvalidByteError CHR ''z''))"
    unfolding FromHeader_def g by (simp add: fromMacaroonHex_def fromHexChar_def between_def)
  then have 3: "Accept testMinter testLib [] [''Macaroon'' \<mapsto> [''zz'']] ''svc'' = (False, [])"
    using Accept_verdict [of testLib "[''Macaroon'' \<mapsto> [''zz'']]" testMinter "[]" "''svc''"]
    by simp
  from 1 2 3 show ?thesis by simp
qed

text \<open>
  C4. Round trip. For a macaroon that serialises and whose binary form deserialises back
  to it, and a preimage of 32 bytes, \<open>SetHeader\<close> succeeds and \<open>FromHeader\<close> on the header
  it wrote returns the same macaroon and preimage, whatever the header held before.
\<close>

theorem SetHeader_FromHeader_roundtrip:
  assumes "MarshalBinary lib mac = Inr macBytes"
    and "UnmarshalBinary lib macBytes = Inr mac"
    and "length preimage = 32"
  shows "fst (SetHeader lib header mac preimage) = None \<and>
    FromHeader lib (snd (SetHeader lib header mac preimage)) = Inr (mac, preimage)"
proof -
  let ?m = "base64_EncodeToString macBytes"
  let ?p = "hex_EncodeToString preimage"
  let ?h = "Header_Set header HeaderAuthorization (''LSAT '' @ ?m @ '':'' @ ?p)"
  have s: "SetHeader lib header mac preimage = (None, ?h)"
    using assms(1) by (simp add: SetHeader_def Preimage_String_def)
  have g: "Header_Get ?h HeaderAuthorization = ''LSAT '' @ ?m @ '':'' @ ?p @ []"
    by (simp add: Header_Get_Set_same)
  have len: "length ?p = 64" using assms(3) by (simp add: hex_length)
  have pre: "MakePreimageFromStr ?p = Inr preimage"
    using MakePreimageFromStr_String [OF assms(3)] by (simp add: Preimage_String_def)
  have "FromHeader lib ?h = Inr (mac, preimage)"
    unfolding FromHeader_layout1 [OF base64_no_colon base64_no_newline len hex_lower g]
      base64_roundtrip
    using assms(2) pre by simp
  then show ?thesis unfolding s by simp
qed

theorem SetHeader_FromHeader_roundtrip_witness:
  "fst (SetHeader testLib [''Macaroon'' \<mapsto> [''00'']] [1, 2, 3] (replicate 32 170)) = None \<and>
   FromHeader testLib (snd (SetHeader testLib [''Macaroon'' \<mapsto> [''00'']] [1, 2, 3] (replicate 32 170))) =
     Inr ([1, 2, 3], replicate 32 170)"
proof -
  have m: "MarshalBinary testLib [1, 2, 3] = Inr [1, 2, 3]"
    and u: "UnmarshalBinary testLib [1, 2, 3] = Inr [1, 2, 3]"
    by (simp_all add: testLib_def)
  have l: "length (replicate 32 (170 :: byte)) = 32" by simp
  show ?thesis by (rule SetHeader_FromHeader_roundtrip [OF m u l])
qed

text \<open>
  C5. With no \<^verbatim>\<open>Authorization\<close> value and a non-empty \<^verbatim>\<open>Grpc-Metadata-Macaroon\<close> or
  \<^verbatim>\<open>Macaroon\<close> value (the first of the two that is non-empty), \<open>FromHeader\<close> succeeds
  exactly when the value is the hex of bytes that deserialise to the macaroon, caveat
  extraction finds the preimage caveat, and the caveat's value is the hex of the 32-byte
  preimage. When the extraction fails, \<open>FromHeader\<close> fails with that error and \<open>Accept\<close>
  returns false and leaves the minter as it was.
\<close>

theorem FromHeader_macaroon_only:
  assumes "Header_Get header HeaderAuthorization = []"
    and "authHeader = (if Header_Get header HeaderMacaroonMD \<noteq> [] then Header_Get header HeaderMacaroonMD
                       else Header_Get header HeaderMacaroon)"
    and "authHeader \<noteq> []"
  shows "((FromHeader lib header = Inr (mac, preimage)) =
      (\<exists>macBytes preimageHex. hex_DecodeString authHeader = Inr macBytes \<and>
         UnmarshalBinary lib macBytes = Inr mac \<and>
         ExtractCaveat lib mac (CondPreimage lib) = Inr preimageHex \<and>
         hex_DecodeString preimageHex = Inr preimage \<and> length preimage = 32)) \<and>
    (\<forall>macBytes mac' e. hex_DecodeString authHeader = Inr macBytes \<longrightarrow>
       UnmarshalBinary lib macBytes = Inr mac' \<longrightarrow>
       ExtractCaveat lib mac' (CondPreimage lib) = Inl e \<longrightarrow>
       FromHeader lib header = Inl (ExtractPreimageFailed e) \<and>
       Accept minter lib ms header serviceName = (False, ms))"
proof -
  have f: "FromHeader lib header = fromMacaroonHex lib authHeader"
    using assms by (simp add: FromHeader_def split: if_splits)
  have 1: "(fromMacaroonHex lib authHeader = Inr (mac, preimage)) =
      (\<exists>macBytes preimageHex. hex_DecodeString authHeader = Inr macBytes \<and>
         UnmarshalBinary lib macBytes = Inr mac \<and>
         ExtractCaveat lib mac (CondPreimage lib) = Inr preimageHex \<and>
         hex_DecodeString preimageHex = Inr preimage \<and> length preimage = 32)"
    by (auto simp: fromMacaroonHex_def MakePreimageFromStr_iff [symmetric] split: sum.splits)
  have 2: "\<forall>macBytes mac' e. hex_DecodeString authHeader = Inr macBytes \<longrightarrow>
       UnmarshalBinary lib macBytes = Inr mac' \<longrightarrow>
       ExtractCaveat lib mac' (CondPreimage lib) = Inl e \<longrightarrow>
       fromMacaroonHex lib authHeader = Inl (ExtractPreimageFailed e) \<and>
       Accept minter lib ms header serviceName = (False, ms)"
    by (simp add: fromMacaroonHex_def Accept_def f)
  show ?thesis unfolding f using 1 2 by simp
qed

theorem FromHeader_macaroon_only_witness:
  "FromHeader testLib
     [''Grpc-Metadata-Macaroon'' \<mapsto> [hex_EncodeToString (2 # replicate 32 171)],
      ''Macaroon'' \<mapsto> [hex_EncodeToString (1 # replicate 32 171)]] =
     Inl (ExtractPreimageFailed (External ''caveat not found'')) \<and>
   Accept testMinter testLib []
     [''Grpc-Metadata-Macaroon'' \<mapsto> [hex_EncodeToString (2 # replicate 32 171)],
      ''Macaroon'' \<mapsto> [hex_EncodeToString (1 # replicate 32 171)]] ''svc'' = (False, []) \<and>
   FromHeader testLib [''Grpc-Metadata-Macaroon'' \<mapsto> [hex_EncodeToString (1 # replicate 32 171)]] =
     Inr (1 # replicate 32 171, replicate 32 171)"
proof -
  let ?bad = "hex_EncodeToString (2 # replicate 32 (171 :: byte))"
  let ?good = "hex_EncodeToString (1 # replicate 32 (171 :: byte))"
  let ?h = "[''Grpc-Metadata-Macaroon'' \<mapsto> [?bad], ''Macaroon'' \<mapsto> [?good]]"
  let ?h2 = "[''Grpc-Metadata-Macaroon'' \<mapsto> [?good]]"
  have a: "Header_Get ?h HeaderAuthorization = []"
    and md: "Header_Get ?h HeaderMacaroonMD = ?bad"
    and a2: "Header_Get ?h2 HeaderAuthorization = []"
    and md2: "Header_Get ?h2 HeaderMacaroonMD = ?good"
    by (simp_all add: Header_Get_def canonical_keys)
  have sel: "?bad = (if Header_Get ?h HeaderMacaroonMD \<noteq> [] then Header_Get ?h HeaderMacaroonMD
      else Header_Get ?h HeaderMacaroon)"
    unfolding md by simp
  have sel2: "?good = (if Header_Get ?h2 HeaderMacaroonMD \<noteq> [] then Header_Get ?h2 HeaderMacaroonMD
      else Header_Get ?h2 HeaderMacaroon)"
    unfolding md2 by simp
  have ne: "?bad \<noteq> []" "?good \<noteq> []" by simp_all
  have u: "UnmarshalBinary testLib (2 # replicate 32 171) = Inr (2 # replicate 32 171)"
    "UnmarshalBinary testLib (1 # replicate 32 171) = Inr (1 # replicate 32 171)"
    by (simp_all add: testLib_def)
  have x: "ExtractCaveat testLib (2 # replicate 32 171) (CondPreimage testLib) =
      Inl (External ''caveat not found'')"
    "ExtractCaveat testLib (1 # replicate 32 171) (CondPreimage testLib) =
      Inr (hex_EncodeToString (replicate 32 171))"
    by (simp_all add: testLib_def)
  note t = FromHeader_macaroon_only [OF a sel ne(1), of testLib _ _ testMinter "[]" "''svc''",
      THEN conjunct2, rule_format, OF hex_roundtrip u(1) x(1)]
  have "hex_DecodeString ?good = Inr (1 # replicate 32 171) \<and>
      UnmarshalBinary testLib (1 # replicate 32 171) = Inr (1 # replicate 32 171) \<and>
      ExtractCaveat testLib (1 # replicate 32 171) (CondPreimage testLib) =
        Inr (hex_EncodeToString (replicate 32 171)) \<and>
      hex_DecodeString (hex_EncodeToString (replicate 32 (171 :: byte))) = Inr (replicate 32 171) \<and>
      length (replicate 32 (171 :: byte)) = 32"
    using u(2) x(2) by (simp only: hex_roundtrip length_replicate simp_thms)
  then have ex: "\<exists>macBytes preimageHex. hex_DecodeString ?good = Inr macBytes \<and>
      UnmarshalBinary testLib macBytes = Inr (1 # replicate 32 171) \<and>
      ExtractCaveat testLib (1 # replicate 32 171) (CondPreimage testLib) = Inr preimageHex \<and>
      hex_DecodeString preimageHex = Inr (replicate 32 171) \<and>
      length (replicate 32 (171 :: byte)) = 32"
    by (intro exI)
  note t2 = FromHeader_macaroon_only [OF a2 sel2 ne(2), of testLib "1 # replicate 32 171"
      "replicate 32 171" testMinter "[]" "''svc''", THEN conjunct1, THEN iffD2, OF ex]
  show ?thesis by (intro conjI t [THEN conjunct1] t [THEN conjunct2] t2)
qed

text \<open>
  C6. When none of the three fields \<^verbatim>\<open>Authorization\<close>, \<^verbatim>\<open>Grpc-Metadata-Macaroon\<close> and
  \<^verbatim>\<open>Macaroon\<close> has a non-empty value, \<open>FromHeader\<close> fails with the no-credential error,
  and \<open>Accept\<close> returns false, leaving the minter as it was.
\<close>

theorem FromHeader_no_credential:
  assumes "Header_Get header HeaderAuthorization = []"
    and "Header_Get header HeaderMacaroonMD = []"
    and "Header_Get header HeaderMacaroon = []"
  shows "FromHeader lib header = Inl NoAuthHeaderProvided \<and>
    Accept minter lib ms header serviceName = (False, ms)"
proof -
  from assms have "FromHeader lib header = Inl NoAuthHeaderProvided"
    by (simp add: FromHeader_def)
  then show ?thesis by (simp add: Accept_def)
qed

theorem FromHeader_no_credential_witness:
  "Header_Get [''Content-Type'' \<mapsto> [''text/plain'']] HeaderAuthorization = [] \<and>
   Header_Get [''Content-Type'' \<mapsto> [''text/plain'']] HeaderMacaroonMD = [] \<and>
   Header_Get [''Content-Type'' \<mapsto> [''text/plain'']] HeaderMacaroon = [] \<and>
   FromHeader testLib [''Content-Type'' \<mapsto> [''text/plain'']] = Inl NoAuthHeaderProvided \<and>
   Accept testMinter testLib [] [''Content-Type'' \<mapsto> [''text/plain'']] ''svc'' = (False, [])"
proof -
  have h: "Header_Get [''Content-Type'' \<mapsto> [''text/plain'']] HeaderAuthorization = []"
    "Header_Get [''Content-Type'' \<mapsto> [''text/plain'']] HeaderMacaroonMD = []"
    "Header_Get [''Content-Type'' \<mapsto> [''text/plain'']] HeaderMacaroon = []"
    by (simp_all add: Header_Get_def canonical_keys)
  from FromHeader_no_credential [OF h, of testLib testMinter "[]" "''svc''"] h
  show ?thesis by simp
qed

text \<open>
  C7. \<open>SetHeader\<close> returns an error only when \<open>MarshalBinary\<close> fails: it then returns
  that error and leaves the header as it was. Otherwise it succeeds and stores
  \<^verbatim>\<open>LSAT <base64-macaroon>:<hex-preimage>\<close> as the only value of the \<^verbatim>\<open>Authorization\<close> field.
\<close>

theorem SetHeader_result:
  "(\<forall>e. MarshalBinary lib mac = Inl e \<longrightarrow>
      SetHeader lib header mac preimage = (Some e, header)) \<and>
   (\<forall>bs. MarshalBinary lib mac = Inr bs \<longrightarrow>
      SetHeader lib header mac preimage =
        (None, header(''Authorization'' \<mapsto>
           [''LSAT '' @ base64_EncodeToString bs @ '':'' @ hex_EncodeToString preimage])) \<and>
      Header_Get (snd (SetHeader lib header mac preimage)) ''Authorization'' =
        ''LSAT '' @ base64_EncodeToString bs @ '':'' @ hex_EncodeToString preimage) \<and>
   ((fst (SetHeader lib header mac preimage) \<noteq> None) = (\<exists>e. MarshalBinary lib mac = Inl e))"
proof (cases "MarshalBinary lib mac")
  case (Inl e)
  then show ?thesis by (simp add: SetHeader_def)
next
  case (Inr bs)
  have k: "CanonicalMIMEHeaderKey ''Authorization'' = ''Authorization''"
    using canonical_keys(1) by (simp add: HeaderAuthorization_def)
  have s: "SetHeader lib header mac preimage =
      (None, header(''Authorization'' \<mapsto>
         [''LSAT '' @ base64_EncodeToString bs @ '':'' @ hex_EncodeToString preimage]))"
    using Inr k
    by (simp add: SetHeader_def Header_Set_def HeaderAuthorization_def Preimage_String_def)
  have "Header_Get (snd (SetHeader lib header mac preimage)) ''Authorization'' =
      ''LSAT '' @ base64_EncodeToString bs @ '':'' @ hex_EncodeToString preimage"
    unfolding s by (simp add: Header_Get_def k)
  with s Inr show ?thesis by simp
qed

theorem SetHeader_result_witness:
  "Header_Get (snd (SetHeader testLib [''Accept'' \<mapsto> [''*/*'']] [1, 2, 3] (replicate 32 170)))
     ''Authorization'' = ''LSAT AQID:'' @ replicate 64 CHR ''a'' \<and>
   fst (SetHeader testLib [''Accept'' \<mapsto> [''*/*'']] [1, 2, 3] (replicate 32 170)) = None \<and>
   SetHeader testLib [''Accept'' \<mapsto> [''*/*'']] [] (replicate 32 170) =
     (Some (External ''empty macaroon''), [''Accept'' \<mapsto> [''*/*'']])"
proof -
  have m: "MarshalBinary testLib [1, 2, 3] = Inr [1, 2, 3]"
    "MarshalBinary testLib [] = Inl (External ''empty macaroon'')"
    by (simp_all add: testLib_def)
  note ok = SetHeader_result [of testLib "[1, 2, 3]" "[''Accept'' \<mapsto> [''*/*'']]" "replicate 32 170"]
  note written = ok [THEN conjunct2, THEN conjunct1, rule_format, OF m(1), THEN conjunct2]
  have 1: "Header_Get (snd (SetHeader testLib [''Accept'' \<mapsto> [''*/*'']] [1, 2, 3] (replicate 32 170)))
     ''Authorization'' = ''LSAT AQID:'' @ replicate 64 CHR ''a''"
    using written unfolding base64_123 hex_replicate_aa by simp
  have 2: "fst (SetHeader testLib [''Accept'' \<mapsto> [''*/*'']] [1, 2, 3] (replicate 32 170)) = None"
    using ok [THEN conjunct2, THEN conjunct2] m(1) by simp
  note bad = SetHeader_result [of testLib "[]" "[''Accept'' \<mapsto> [''*/*'']]" "replicate 32 170"]
  note 3 = bad [THEN conjunct1, rule_format, OF m(2)]
  show ?thesis by (intro conjI 1 2 3)
qed

text \<open>
  C8. When minting fails, \<open>FreshChallengeHeader\<close> returns the minter's error and no
  header, writes nothing, and has called the minter once. When the minted macaroon cannot
  be serialised the call still succeeds: the header is written with an empty macaroon
  segment and returned without an error.
\<close>

theorem FreshChallengeHeader_errors:
  "(\<forall>e ms'. MintLSAT minter ms \<lparr>Name = serviceName, Tier = BaseTier\<rparr> = (Inl e, ms') \<longrightarrow>
      FreshChallengeHeader minter lib ms store r serviceName = (Inl e, store, ms')) \<and>
   (\<forall>mac paymentRequest ms' e.
      MintLSAT minter ms \<lparr>Name = serviceName, Tier = BaseTier\<rparr> = (Inr (mac, paymentRequest), ms') \<longrightarrow>
      MarshalBinary lib mac = Inl e \<longrightarrow>
      FreshChallengeHeader minter lib ms store r serviceName =
        (Inr (Header r),
         store(Header r := Header_Set (store (Header r)) ''WWW-Authenticate''
           (''LSAT macaroon='' @ [CHR 0x27, CHR 0x27] @ '' invoice='' @ [CHR 0x27] @
            paymentRequest @ [CHR 0x27])),
         ms'))"
  by (simp add: FreshChallengeHeader_def challengeString_def Let_def)

theorem FreshChallengeHeader_errors_witness:
  "FreshChallengeHeader testMinter testLib [] (\<lambda>a. Map.empty) \<lparr>Header = 7\<rparr> ''down'' =
     (Inl (External ''mint failed''), (\<lambda>a. Map.empty),
      [MintCall \<lparr>Name = ''down'', Tier = BaseTier\<rparr>]) \<and>
   fst (FreshChallengeHeader testMinter testLib [] (\<lambda>a. Map.empty) \<lparr>Header = 7\<rparr> ''broken'') =
     Inr 7 \<and>
   Header_Get (fst (snd (FreshChallengeHeader testMinter testLib [] (\<lambda>a. Map.empty)
       \<lparr>Header = 7\<rparr> ''broken'')) 7) ''WWW-Authenticate'' =
     ''LSAT macaroon='' @ [CHR 0x27, CHR 0x27] @ '' invoice='' @ [CHR 0x27] @ ''lnbc1'' @ [CHR 0x27]"
proof -
  have d: "MintLSAT testMinter [] \<lparr>Name = ''down'', Tier = BaseTier\<rparr> =
      (Inl (External ''mint failed''), [MintCall \<lparr>Name = ''down'', Tier = BaseTier\<rparr>])"
    by (simp add: testMinter_def)
  have b: "MintLSAT testMinter [] \<lparr>Name = ''broken'', Tier = BaseTier\<rparr> =
      (Inr ([], ''lnbc1''), [MintCall \<lparr>Name = ''broken'', Tier = BaseTier\<rparr>])"
    by (simp add: testMinter_def)
  have m: "MarshalBinary testLib [] = Inl (External ''empty macaroon'')"
    by (simp add: testLib_def)
  note t = FreshChallengeHeader_errors [of testMinter "[]" _ testLib "\<lambda>a. Map.empty" "\<lparr>Header = 7\<rparr>"]
  note 1 = t [of "''down''", THEN conjunct1, rule_format, OF d]
  note 2 = t [of "''broken''", THEN conjunct2, rule_format, OF b m]
  have 3: "fst (FreshChallengeHeader testMinter testLib [] (\<lambda>a. Map.empty) \<lparr>Header = 7\<rparr> ''broken'') =
     Inr 7"
    unfolding 2 by simp
  have 4: "Header_Get (fst (snd (FreshChallengeHeader testMinter testLib [] (\<lambda>a. Map.empty)
       \<lparr>Header = 7\<rparr> ''broken'')) 7) ''WWW-Authenticate'' =
     ''LSAT macaroon='' @ [CHR 0x27, CHR 0x27] @ '' invoice='' @ [CHR 0x27] @ ''lnbc1'' @ [CHR 0x27]"
    unfolding 2 by (simp add: Header_Get_Set_same)
  show ?thesis by (intro conjI 1 3 4)
qed

text \<open>
  C9. When minting for the service descriptor of \<open>serviceName\<close> at \<open>BaseTier\<close> (the
  lowest tier) succeeds and the macaroon serialises, \<open>FreshChallengeHeader\<close> returns the
  request's headers without an error, and their \<^verbatim>\<open>WWW-Authenticate\<close> field reads
  \<^verbatim>\<open>LSAT macaroon='<base64 of the macaroon's bytes>' invoice='<payment request>'\<close>.
\<close>

theorem FreshChallengeHeader_success:
  assumes "MintLSAT minter ms \<lparr>Name = serviceName, Tier = BaseTier\<rparr> =
      (Inr (mac, paymentRequest), ms')"
    and "MarshalBinary lib mac = Inr macBytes"
  shows "fst (FreshChallengeHeader minter lib ms store r serviceName) = Inr (Header r) \<and>
    snd (snd (FreshChallengeHeader minter lib ms store r serviceName)) = ms' \<and>
    Header_Get (fst (snd (FreshChallengeHeader minter lib ms store r serviceName)) (Header r))
        ''WWW-Authenticate'' =
      ''LSAT macaroon='' @ [CHR 0x27] @ base64_EncodeToString macBytes @ [CHR 0x27] @
      '' invoice='' @ [CHR 0x27] @ paymentRequest @ [CHR 0x27] \<and>
    (\<forall>t. BaseTier \<le> t)"
  using assms
  by (simp add: FreshChallengeHeader_def challengeString_def Let_def Header_Get_Set_same
      BaseTier_def)

theorem FreshChallengeHeader_success_witness:
  "fst (FreshChallengeHeader testMinter testLib [] (\<lambda>a. Map.empty) \<lparr>Header = 7\<rparr> ''svc'') = Inr 7 \<and>
   snd (snd (FreshChallengeHeader testMinter testLib [] (\<lambda>a. Map.empty) \<lparr>Header = 7\<rparr> ''svc'')) =
     [MintCall \<lparr>Name = ''svc'', Tier = 0\<rparr>] \<and>
   Header_Get (fst (snd (FreshChallengeHeader testMinter testLib [] (\<lambda>a. Map.empty)
       \<lparr>Header = 7\<rparr> ''svc'')) 7) ''WWW-Authenticate'' =
     ''LSAT macaroon='' @ [CHR 0x27] @ ''AQID'' @ [CHR 0x27] @
     '' invoice='' @ [CHR 0x27] @ ''lnbc1'' @ [CHR 0x27]"
proof -
  have mint: "MintLSAT testMinter [] \<lparr>Name = ''svc'', Tier = BaseTier\<rparr> =
      (Inr ([1, 2, 3], ''lnbc1''), [MintCall \<lparr>Name = ''svc'', Tier = 0\<rparr>])"
    by (simp add: testMinter_def BaseTier_def)
  have m: "MarshalBinary testLib [1, 2, 3] = Inr [1, 2, 3]"
    by (simp add: testLib_def)
  note t = FreshChallengeHeader_success [OF mint m, of "\<lambda>a. Map.empty" "\<lparr>Header = 7\<rparr>",
      unfolded base64_123]
  have 1: "fst (FreshChallengeHeader testMinter testLib [] (\<lambda>a. Map.empty) \<lparr>Header = 7\<rparr> ''svc'') = Inr 7"
    using t [THEN conjunct1] by simp
  note 2 = t [THEN conjunct2, THEN conjunct1]
  have 3: "Header_Get (fst (snd (FreshChallengeHeader testMinter testLib [] (\<lambda>a. Map.empty)
       \<lparr>Header = 7\<rparr> ''svc'')) 7) ''WWW-Authenticate'' =
     ''LSAT macaroon='' @ [CHR 0x27] @ ''AQID'' @ [CHR 0x27] @
     '' invoice='' @ [CHR 0x27] @ ''lnbc1'' @ [CHR 0x27]"
    using t [THEN conjunct2, THEN conjunct2, THEN conjunct1] by simp
  show ?thesis by (intro conjI 1 2 3)
qed

text \<open>
  C10. \<open>FreshChallengeHeader\<close> writes into the request's own header map and returns that
  map: the address returned is the request's, the minter has been called once, no other
  map of the store changes, and in the request's map only the entry of
  \<^verbatim>\<open>WWW-Authenticate\<close> (stored under its canonical key \<^verbatim>\<open>Www-Authenticate\<close>) changes: it
  becomes the single value \<^verbatim>\<open>LSAT macaroon='<base64>' invoice='<payment request>'\<close>,
  whatever the entry held before.
\<close>

theorem FreshChallengeHeader_frame:
  assumes "MintLSAT minter ms \<lparr>Name = serviceName, Tier = BaseTier\<rparr> =
      (Inr (mac, paymentRequest), ms')"
  shows "fst (FreshChallengeHeader minter lib ms store r serviceName) = Inr (Header r) \<and>
    snd (snd (FreshChallengeHeader minter lib ms store r serviceName)) = ms' \<and>
    (\<forall>a. a \<noteq> Header r \<longrightarrow>
       fst (snd (FreshChallengeHeader minter lib ms store r serviceName)) a = store a) \<and>
    (\<forall>k. k \<noteq> ''Www-Authenticate'' \<longrightarrow>
       fst (snd (FreshChallengeHeader minter lib ms store r serviceName)) (Header r) k =
       store (Header r) k) \<and>
    fst (snd (FreshChallengeHeader minter lib ms store r serviceName)) (Header r)
        ''Www-Authenticate'' =
      Some [''LSAT macaroon='' @ [CHR 0x27] @
            base64_EncodeToString (case MarshalBinary lib mac of Inl err \<Rightarrow> [] | Inr bs \<Rightarrow> bs) @
            [CHR 0x27] @ '' invoice='' @ [CHR 0x27] @ paymentRequest @ [CHR 0x27]] \<and>
    Header_Get (fst (snd (FreshChallengeHeader minter lib ms store r serviceName)) (Header r))
        ''WWW-Authenticate'' =
      ''LSAT macaroon='' @ [CHR 0x27] @
      base64_EncodeToString (case MarshalBinary lib mac of Inl err \<Rightarrow> [] | Inr bs \<Rightarrow> bs) @
      [CHR 0x27] @ '' invoice='' @ [CHR 0x27] @ paymentRequest @ [CHR 0x27] \<and>
    CanonicalMIMEHeaderKey ''WWW-Authenticate'' = ''Www-Authenticate''"
  using assms
  by (simp add: FreshChallengeHeader_def Let_def Header_Set_def Header_Get_def canonical_keys
      challengeString_def)

theorem FreshChallengeHeader_frame_witness:
  "((\<lambda>a. Map.empty)(7 := [''Accept'' \<mapsto> [''*/*''], ''Www-Authenticate'' \<mapsto> [''old'']]) :: hstore)
     7 ''Www-Authenticate'' = Some [''old''] \<and>
   fst (FreshChallengeHeader testMinter testLib []
       ((\<lambda>a. Map.empty)(7 := [''Accept'' \<mapsto> [''*/*''], ''Www-Authenticate'' \<mapsto> [''old'']]))
       \<lparr>Header = 7\<rparr> ''svc'') = Inr 7 \<and>
   snd (snd (FreshChallengeHeader testMinter testLib []
       ((\<lambda>a. Map.empty)(7 := [''Accept'' \<mapsto> [''*/*''], ''Www-Authenticate'' \<mapsto> [''old'']]))
       \<lparr>Header = 7\<rparr> ''svc'')) = [MintCall \<lparr>Name = ''svc'', Tier = 0\<rparr>] \<and>
   fst (snd (FreshChallengeHeader testMinter testLib []
       ((\<lambda>a. Map.empty)(7 := [''Accept'' \<mapsto> [''*/*''], ''Www-Authenticate'' \<mapsto> [''old'']]))
       \<lparr>Header = 7\<rparr> ''svc'')) 7 ''Www-Authenticate'' =
     Some [''LSAT macaroon='' @ [CHR 0x27] @ ''AQID'' @ [CHR 0x27] @
           '' invoice='' @ [CHR 0x27] @ ''lnbc1'' @ [CHR 0x27]] \<and>
   fst (snd (FreshChallengeHeader testMinter testLib []
       ((\<lambda>a. Map.empty)(7 := [''Accept'' \<mapsto> [''*/*''], ''Www-Authenticate'' \<mapsto> [''old'']]))
       \<lparr>Header = 7\<rparr> ''svc'')) 7 ''Accept'' = Some [''*/*''] \<and>
   fst (snd (FreshChallengeHeader testMinter testLib []
       ((\<lambda>a. Map.empty)(7 := [''Accept'' \<mapsto> [''*/*''], ''Www-Authenticate'' \<mapsto> [''old'']]))
       \<lparr>Header = 7\<rparr> ''svc'')) 8 = Map.empty"
proof -
  have mint: "MintLSAT testMinter [] \<lparr>Name = ''svc'', Tier = BaseTier\<rparr> =
      (Inr ([1, 2, 3], ''lnbc1''), [MintCall \<lparr>Name = ''svc'', Tier = 0\<rparr>])"
    by (simp add: testMinter_def BaseTier_def)
  have m: "(case MarshalBinary testLib [1, 2, 3] of Inl err \<Rightarrow> [] | Inr bs \<Rightarrow> bs) = [1, 2, 3]"
    by (simp add: testLib_def)
  let ?store = "(\<lambda>a. Map.empty)(7 := [''Accept'' \<mapsto> [''*/*''], ''Www-Authenticate'' \<mapsto> [''old'']])
      :: hstore"
  let ?r = "\<lparr>Header = 7\<rparr>"
  note t = FreshChallengeHeader_frame [OF mint, of testLib ?store ?r, unfolded m base64_123]
  have 0: "?store 7 ''Www-Authenticate'' = Some [''old'']" by simp
  have 1: "fst (FreshChallengeHeader testMinter testLib [] ?store ?r ''svc'') = Inr 7"
    using t [THEN conjunct1] by simp
  note s = t [THEN conjunct2, THEN conjunct1]
  have 2: "fst (snd (FreshChallengeHeader testMinter testLib [] ?store ?r ''svc'')) 7 ''Accept'' =
      Some [''*/*'']"
    using t [THEN conjunct2, THEN conjunct2, THEN conjunct2, THEN conjunct1, rule_format,
        of "''Accept''"]
    by simp
  have 3: "fst (snd (FreshChallengeHeader testMinter testLib [] ?store ?r ''svc'')) 8 = Map.empty"
    using t [THEN conjunct2, THEN conjunct2, THEN conjunct1, rule_format, of 8] by simp
  have 4: "fst (snd (FreshChallengeHeader testMinter testLib [] ?store ?r ''svc'')) 7
      ''Www-Authenticate'' =
     Some [''LSAT macaroon='' @ [CHR 0x27] @ ''AQID'' @ [CHR 0x27] @
           '' invoice='' @ [CHR 0x27] @ ''lnbc1'' @ [CHR 0x27]]"
    using t [THEN conjunct2, THEN conjunct2, THEN conjunct2, THEN conjunct2, THEN conjunct1]
    by simp
  show ?thesis by (intro conjI 0 1 s 4 2 3)
qed

end
